theory Spec2Isabelle
  imports Complex_Main "HOL-Library.Word"
begin

section \<open>The artifact acquisition pipeline of \<^verbatim>\<open>net.ts\<close>\<close>

text \<open>
  A shallow embedding of \<^verbatim>\<open>editors/code/src/net.ts\<close>: \<^verbatim>\<open>fetchRelease\<close>,
  \<^verbatim>\<open>download\<close>, \<^verbatim>\<open>downloadFile\<close>, \<^verbatim>\<open>withTempDir\<close> and \<^verbatim>\<open>moveFile\<close>.
  Every function of the module is asynchronous and effectful. An \<^verbatim>\<open>async\<close> function
  becomes a function from the world before the call to its outcome and the world after
  it; a rejected promise (a thrown value) is \<open>Inl\<close>, a fulfilled one \<open>Inr\<close>. What the module
  does not decide itself (the HTTP server, the file system, the path library, the failures
  of system calls) is read from a \<open>platform\<close> record, over which every theorem quantifies.
\<close>

subsection \<open>JavaScript numbers\<close>

text \<open>
  A JavaScript number with the special values of IEEE 754 written out: \<open>NaN\<close>, the two
  infinities and the negative zero; \<open>Fin 0\<close> is the positive zero. Finite values are kept
  as exact rationals: the rounding and the overflow of binary64 are not part of the model.
  The rules for the special values are those of ECMAScript.
\<close>

datatype jsnum = NaN | PInf | NInf | NegZero | Fin rat

fun is_inf :: "jsnum \<Rightarrow> bool" where
  "is_inf PInf = True"
| "is_inf NInf = True"
| "is_inf _ = False"

fun is_zero :: "jsnum \<Rightarrow> bool" where
  "is_zero NegZero = True"
| "is_zero (Fin q) = (q = 0)"
| "is_zero _ = False"

fun sign_neg :: "jsnum \<Rightarrow> bool" where
  "sign_neg NInf = True"
| "sign_neg NegZero = True"
| "sign_neg (Fin q) = (q < 0)"
| "sign_neg _ = False"

fun magnitude :: "jsnum \<Rightarrow> rat" where
  "magnitude (Fin q) = q"
| "magnitude _ = 0"

definition inf_signed :: "bool \<Rightarrow> jsnum" where
  "inf_signed neg = (if neg then NInf else PInf)"

definition zero_signed :: "bool \<Rightarrow> jsnum" where
  "zero_signed neg = (if neg then NegZero else Fin 0)"

text \<open>\<^verbatim>\<open>Number.isNaN\<close>.\<close>

definition isNaN :: "jsnum \<Rightarrow> bool" where
  "isNaN x = (x = NaN)"

text \<open>The operators \<^verbatim>\<open>/\<close>, \<^verbatim>\<open>*\<close>, unary \<^verbatim>\<open>-\<close>, \<^verbatim>\<open>+\<close>, binary \<^verbatim>\<open>-\<close> and \<^verbatim>\<open>===\<close> on numbers.\<close>

definition js_div :: "jsnum \<Rightarrow> jsnum \<Rightarrow> jsnum" where
  "js_div x y =
     (if isNaN x \<or> isNaN y then NaN
      else if is_inf x then (if is_inf y then NaN else inf_signed (sign_neg x \<noteq> sign_neg y))
      else if is_inf y then zero_signed (sign_neg x \<noteq> sign_neg y)
      else if is_zero y then (if is_zero x then NaN else inf_signed (sign_neg x \<noteq> sign_neg y))
      else if is_zero x then zero_signed (sign_neg x \<noteq> sign_neg y)
      else Fin (magnitude x / magnitude y))"

definition js_mul :: "jsnum \<Rightarrow> jsnum \<Rightarrow> jsnum" where
  "js_mul x y =
     (if isNaN x \<or> isNaN y then NaN
      else if (is_inf x \<and> is_zero y) \<or> (is_zero x \<and> is_inf y) then NaN
      else if is_inf x \<or> is_inf y then inf_signed (sign_neg x \<noteq> sign_neg y)
      else if is_zero x \<or> is_zero y then zero_signed (sign_neg x \<noteq> sign_neg y)
      else Fin (magnitude x * magnitude y))"

fun js_neg :: "jsnum \<Rightarrow> jsnum" where
  "js_neg NaN = NaN"
| "js_neg PInf = NInf"
| "js_neg NInf = PInf"
| "js_neg NegZero = Fin 0"
| "js_neg (Fin q) = (if q = 0 then NegZero else Fin (- q))"

fun js_add :: "jsnum \<Rightarrow> jsnum \<Rightarrow> jsnum" where
  "js_add NaN _ = NaN"
| "js_add _ NaN = NaN"
| "js_add PInf NInf = NaN"
| "js_add NInf PInf = NaN"
| "js_add PInf _ = PInf"
| "js_add _ PInf = PInf"
| "js_add NInf _ = NInf"
| "js_add _ NInf = NInf"
| "js_add NegZero NegZero = NegZero"
| "js_add NegZero (Fin q) = Fin q"
| "js_add (Fin q) NegZero = Fin q"
| "js_add (Fin a) (Fin b) = Fin (a + b)"

definition js_sub :: "jsnum \<Rightarrow> jsnum \<Rightarrow> jsnum" where
  "js_sub x y = js_add x (js_neg y)"


text \<open>A byte count (\<^verbatim>\<open>chunk.length\<close>, \<^verbatim>\<open>readBytes\<close>) as a number.\<close>

definition js_of_nat :: "nat \<Rightarrow> jsnum" where
  "js_of_nat n = Fin (of_nat n)"

subsection \<open>\<^verbatim>\<open>Number(value)\<close> on a header value\<close>

text \<open>
  \<^verbatim>\<open>Number\<close> applied to what \<^verbatim>\<open>headers.get\<close> returns: \<^verbatim>\<open>null\<close> for a header that is
  absent, the header's text otherwise. \<^verbatim>\<open>Number(null)\<close> is \<open>+0\<close>. A string is converted by
  the grammar \<^verbatim>\<open>StringNumericLiteral\<close> of ECMAScript: white space around the literal is
  dropped, the empty string is \<open>+0\<close>, a literal is a signed decimal literal (digits with an
  optional fraction and exponent, or \<^verbatim>\<open>Infinity\<close>) or an unsigned binary, octal or
  hexadecimal integer literal, and everything else is \<open>NaN\<close>. A header value is a
  Latin-1 string, so the white space characters are the seven below.
\<close>

definition is_ws :: "char \<Rightarrow> bool" where
  "is_ws c = (of_char c \<in> {9, 10, 11, 12, 13, 32, 160 :: nat})"

definition trim :: "string \<Rightarrow> string" where
  "trim s = rev (dropWhile is_ws (rev (dropWhile is_ws s)))"

definition digit_val :: "char \<Rightarrow> nat option" where
  "digit_val c =
     (let n = of_char c :: nat in
      if 48 \<le> n \<and> n \<le> 57 then Some (n - 48)
      else if 97 \<le> n \<and> n \<le> 102 then Some (n - 87)
      else if 65 \<le> n \<and> n \<le> 70 then Some (n - 55)
      else None)"

definition is_digit :: "nat \<Rightarrow> char \<Rightarrow> bool" where
  "is_digit base c = (case digit_val c of None \<Rightarrow> False | Some d \<Rightarrow> d < base)"

definition digits_val :: "nat \<Rightarrow> string \<Rightarrow> nat" where
  "digits_val base ds = foldl (\<lambda>acc c. acc * base + (case digit_val c of None \<Rightarrow> 0 | Some d \<Rightarrow> d)) 0 ds"

definition all_digits :: "nat \<Rightarrow> string \<Rightarrow> bool" where
  "all_digits base ds = (ds \<noteq> [] \<and> list_all (is_digit base) ds)"

text \<open>\<^verbatim>\<open>SignedInteger\<close> of an exponent part: the exponent, or \<open>None\<close> when malformed.\<close>

definition signed_integer :: "string \<Rightarrow> int option" where
  "signed_integer s =
     (case s of
        [] \<Rightarrow> None
      | c # r \<Rightarrow>
          if c = CHR ''+'' then (if all_digits 10 r then Some (int (digits_val 10 r)) else None)
          else if c = CHR ''-'' then (if all_digits 10 r then Some (- int (digits_val 10 r)) else None)
          else if all_digits 10 s then Some (int (digits_val 10 s)) else None)"

definition scale10 :: "nat \<Rightarrow> int \<Rightarrow> rat" where
  "scale10 n e = (if 0 \<le> e then of_nat n * 10 ^ nat e else of_nat n / 10 ^ nat (- e))"

text \<open>
  \<^verbatim>\<open>StrUnsignedDecimalLiteral\<close> other than \<^verbatim>\<open>Infinity\<close>: its mathematical value, or \<open>None\<close>
  when the text is not such a literal.
\<close>

definition unsigned_decimal :: "string \<Rightarrow> rat option" where
  "unsigned_decimal s =
     (let ip = takeWhile (is_digit 10) s;
          r1 = dropWhile (is_digit 10) s;
          dot = (r1 \<noteq> [] \<and> hd r1 = CHR ''.'');
          fp = (if dot then takeWhile (is_digit 10) (tl r1) else []);
          r2 = (if dot then dropWhile (is_digit 10) (tl r1) else r1)
      in if ip = [] \<and> fp = [] then None
         else if r2 = [] then Some (scale10 (digits_val 10 (ip @ fp)) (- int (length fp)))
         else if hd r2 = CHR ''e'' \<or> hd r2 = CHR ''E'' then
           (case signed_integer (tl r2) of
              None \<Rightarrow> None
            | Some e \<Rightarrow> Some (scale10 (digits_val 10 (ip @ fp)) (e - int (length fp))))
         else None)"

definition signed_value :: "bool \<Rightarrow> rat \<Rightarrow> jsnum" where
  "signed_value neg q = (if neg then (if q = 0 then NegZero else Fin (- q)) else Fin q)"

definition str_decimal :: "bool \<Rightarrow> string \<Rightarrow> jsnum" where
  "str_decimal neg s =
     (if s = ''Infinity'' then inf_signed neg
      else (case unsigned_decimal s of None \<Rightarrow> NaN | Some q \<Rightarrow> signed_value neg q))"

definition non_decimal :: "nat \<Rightarrow> string \<Rightarrow> jsnum" where
  "non_decimal base ds = (if all_digits base ds then Fin (of_nat (digits_val base ds)) else NaN)"

definition StringToNumber :: "string \<Rightarrow> jsnum" where
  "StringToNumber str =
     (let s = trim str in
      if s = [] then Fin 0
      else if take 2 s = ''0x'' \<or> take 2 s = ''0X'' then non_decimal 16 (drop 2 s)
      else if take 2 s = ''0o'' \<or> take 2 s = ''0O'' then non_decimal 8 (drop 2 s)
      else if take 2 s = ''0b'' \<or> take 2 s = ''0B'' then non_decimal 2 (drop 2 s)
      else if hd s = CHR ''+'' then str_decimal False (tl s)
      else if hd s = CHR ''-'' then str_decimal True (tl s)
      else str_decimal False s)"

definition Number :: "string option \<Rightarrow> jsnum" where
  "Number v = (case v of None \<Rightarrow> Fin 0 | Some s \<Rightarrow> StringToNumber s)"

subsection \<open>Thrown values, JSON values, HTTP responses\<close>

text \<open>
  What a promise is rejected with: an \<^verbatim>\<open>Error\<close> made by the module with its message, an
  error of the platform with its \<^verbatim>\<open>code\<close> (\<^verbatim>\<open>EXDEV\<close>, \<^verbatim>\<open>ENOENT\<close>, ...) and the system
  call that failed, or a failed assertion with its explanation.
\<close>

datatype error = Error string | SystemError string string | AssertionError string

fun err_code :: "error \<Rightarrow> string option" where
  "err_code (SystemError c _) = Some c"
| "err_code _ = None"

datatype json =
    JNull
  | JBool bool
  | JNumber jsnum
  | JString string
  | JArray "json list"
  | JObject "(string \<times> json) list"

text \<open>Reading a property of a parsed value: \<open>None\<close> is \<^verbatim>\<open>undefined\<close>.\<close>

fun get_prop :: "json \<Rightarrow> string \<Rightarrow> json option" where
  "get_prop (JObject kvs) k = map_of kvs k"
| "get_prop _ k = None"

type_synonym buffer = "8 word list"
type_synonym path = string

text \<open>
  A response of \<^verbatim>\<open>node-fetch\<close>: the status, the headers (names in lower case, as
  \<^verbatim>\<open>node-fetch\<close> keeps them), and the body as each way of consuming it delivers it:
  \<^verbatim>\<open>text()\<close>, \<^verbatim>\<open>json()\<close> (the parsed value, or the rejection of a body that is not JSON),
  and the stream \<^verbatim>\<open>body\<close>, which emits the chunks in order and then ends or fails.
\<close>

record response =
  status :: nat
  headers :: "(string \<times> string) list"
  body_text :: "error + string"
  body_json :: "error + json"
  body_chunks :: "buffer list"
  body_end :: "error option"

definition ok :: "response \<Rightarrow> bool" where
  "ok r = (200 \<le> status r \<and> status r < 300)"

definition headers_get :: "(string \<times> string) list \<Rightarrow> string \<Rightarrow> string option" where
  "headers_get hs name = map_of hs name"

subsection \<open>The world and the platform\<close>

record regfile =
  content :: buffer
  fmode :: nat

datatype syscall =
    SysRealpath path
  | SysMkdtemp path
  | SysRmdir path bool
  | SysRename path path
  | SysCopyFile path path
  | SysUnlink path
  | SysOpen path "nat option"
  | SysWrite path nat

datatype log_arg =
    LStr string
  | LNat nat
  | LNum jsnum
  | LErr error
  | LHeaders "(string \<times> string) list"
  | LObj "(string \<times> log_arg) list"

datatype log_entry = Debug "log_arg list" | ErrorLog "log_arg list"

text \<open>
  One call of \<^verbatim>\<open>progress.report\<close>. The message is \<^verbatim>\<open>newPercentage.toFixed(0) + "%"\<close>;
  the record keeps the number that is rendered, not the rendering.
\<close>

record report =
  message :: jsnum
  increment :: jsnum

text \<open>
  The world: the files (by path) and directories, the log, the system calls issued so far
  in order, and the progress notifications shown so far (title and reports).
\<close>

record world =
  files :: "path \<rightharpoonup> regfile"
  dirs :: "path set"
  logged :: "log_entry list"
  trace :: "syscall list"
  notifications :: "(string \<times> report list) list"

text \<open>
  The platform: what the server answers to a GET, which system calls fail and with what
  (\<open>fault\<close>), the temporary root, how \<^verbatim>\<open>realpath\<close> resolves, the characters \<^verbatim>\<open>mkdtemp\<close>
  appends, \<^verbatim>\<open>path.join\<close> and \<^verbatim>\<open>path.basename\<close>, which paths lie in a directory
  (\<open>lies_in d q\<close>: \<open>q\<close> is \<open>d\<close> or below it), the device of a path, and what a failed
  \<^verbatim>\<open>copyFile\<close> leaves at its destination.
\<close>

record platform =
  fetch :: "string \<Rightarrow> (string \<times> string) list \<Rightarrow> error + response"
  fault :: "syscall \<Rightarrow> error option"
  os_tmpdir :: path
  realpath_of :: "path \<Rightarrow> path"
  mkdtemp_suffix :: "path \<Rightarrow> string"
  path_join :: "path \<Rightarrow> path \<Rightarrow> path"
  path_basename :: "path \<Rightarrow> path"
  lies_in :: "path \<Rightarrow> path \<Rightarrow> bool"
  device :: "path \<Rightarrow> nat"
  copy_residue :: "path \<Rightarrow> path \<Rightarrow> regfile option \<Rightarrow> regfile option"

definition issue :: "syscall \<Rightarrow> world \<Rightarrow> world" where
  "issue c w = w\<lparr>trace := trace w @ [c]\<rparr>"

text \<open>
  The calls of \<^verbatim>\<open>fs.promises\<close> and of the write stream. Each is recorded in the trace when
  it is issued, fails with the platform's fault when there is one, and has its POSIX
  effect otherwise.
\<close>

definition realpath :: "platform \<Rightarrow> path \<Rightarrow> world \<Rightarrow> (error + path) \<times> world" where
  "realpath p q w =
     (let w1 = issue (SysRealpath q) w in
      case fault p (SysRealpath q) of
        Some e \<Rightarrow> (Inl e, w1)
      | None \<Rightarrow> (Inr (realpath_of p q), w1))"

definition mkdtemp :: "platform \<Rightarrow> path \<Rightarrow> world \<Rightarrow> (error + path) \<times> world" where
  "mkdtemp p prefix w =
     (let w1 = issue (SysMkdtemp prefix) w; d = prefix @ mkdtemp_suffix p prefix in
      case fault p (SysMkdtemp prefix) of
        Some e \<Rightarrow> (Inl e, w1)
      | None \<Rightarrow>
          if d \<in> dirs w1 \<or> files w1 d \<noteq> None then (Inl (SystemError ''EEXIST'' ''mkdtemp''), w1)
          else (Inr d, w1\<lparr>dirs := insert d (dirs w1)\<rparr>))"

text \<open>\<^verbatim>\<open>rmdir(d, { recursive: true })\<close>: the directory and everything in it.\<close>

definition rmdir_recursive :: "platform \<Rightarrow> path \<Rightarrow> world \<Rightarrow> (error + unit) \<times> world" where
  "rmdir_recursive p d w =
     (let w1 = issue (SysRmdir d True) w in
      case fault p (SysRmdir d True) of
        Some e \<Rightarrow> (Inl e, w1)
      | None \<Rightarrow>
          (Inr (), w1\<lparr>files := (\<lambda>q. if lies_in p d q then None else files w1 q),
                      dirs := {q \<in> dirs w1. \<not> lies_in p d q}\<rparr>))"

definition rename :: "platform \<Rightarrow> path \<Rightarrow> path \<Rightarrow> world \<Rightarrow> (error + unit) \<times> world" where
  "rename p src dst w =
     (let w1 = issue (SysRename src dst) w in
      case fault p (SysRename src dst) of
        Some e \<Rightarrow> (Inl e, w1)
      | None \<Rightarrow>
          (case files w1 src of
             None \<Rightarrow> (Inl (SystemError ''ENOENT'' ''rename''), w1)
           | Some f \<Rightarrow>
               if device p src \<noteq> device p dst then (Inl (SystemError ''EXDEV'' ''rename''), w1)
               else (Inr (), w1\<lparr>files := ((files w1)(src := None))(dst \<mapsto> f)\<rparr>)))"

definition copyFile :: "platform \<Rightarrow> path \<Rightarrow> path \<Rightarrow> world \<Rightarrow> (error + unit) \<times> world" where
  "copyFile p src dst w =
     (let w1 = issue (SysCopyFile src dst) w in
      case fault p (SysCopyFile src dst) of
        Some e \<Rightarrow> (Inl e, w1\<lparr>files := (files w1)(dst := copy_residue p src dst (files w1 dst))\<rparr>)
      | None \<Rightarrow>
          (case files w1 src of
             None \<Rightarrow> (Inl (SystemError ''ENOENT'' ''copyfile''), w1)
           | Some f \<Rightarrow> (Inr (), w1\<lparr>files := (files w1)(dst \<mapsto> f)\<rparr>)))"

definition unlink :: "platform \<Rightarrow> path \<Rightarrow> world \<Rightarrow> (error + unit) \<times> world" where
  "unlink p q w =
     (let w1 = issue (SysUnlink q) w in
      case fault p (SysUnlink q) of
        Some e \<Rightarrow> (Inl e, w1)
      | None \<Rightarrow>
          (case files w1 q of
             None \<Rightarrow> (Inl (SystemError ''ENOENT'' ''unlink''), w1)
           | Some f \<Rightarrow> (Inr (), w1\<lparr>files := (files w1)(q := None)\<rparr>)))"

text \<open>
  \<^verbatim>\<open>fs.createWriteStream(q, { mode })\<close> opens the file for writing: a new file is created
  empty with the mode (\<^verbatim>\<open>0o666\<close> when \<^verbatim>\<open>mode\<close> is \<^verbatim>\<open>undefined\<close>), an existing one is
  truncated. The stream reports a failure to open through the pipeline it is part of.
\<close>

definition createWriteStream :: "platform \<Rightarrow> path \<Rightarrow> nat option \<Rightarrow> world \<Rightarrow> (error + unit) \<times> world" where
  "createWriteStream p q mode w =
     (let w1 = issue (SysOpen q mode) w in
      case fault p (SysOpen q mode) of
        Some e \<Rightarrow> (Inl e, w1)
      | None \<Rightarrow>
          (Inr (), w1\<lparr>files := (files w1)(q \<mapsto>
             (case files w1 q of
                None \<Rightarrow> \<lparr>content = [], fmode = (case mode of None \<Rightarrow> 438 | Some m \<Rightarrow> m)\<rparr>
              | Some f \<Rightarrow> f\<lparr>content := []\<rparr>))\<rparr>))"

text \<open>Writing the chunk number \<open>i\<close> of the stream to the open file: it is appended.\<close>

definition write_chunk :: "platform \<Rightarrow> path \<Rightarrow> nat \<Rightarrow> buffer \<Rightarrow> world \<Rightarrow> (error + unit) \<times> world" where
  "write_chunk p q i chunk w =
     (let w1 = issue (SysWrite q i) w in
      case fault p (SysWrite q i) of
        Some e \<Rightarrow> (Inl e, w1)
      | None \<Rightarrow>
          (case files w1 q of
             None \<Rightarrow> (Inl (SystemError ''EBADF'' ''write''), w1)
           | Some f \<Rightarrow> (Inr (), w1\<lparr>files := (files w1)(q \<mapsto> f\<lparr>content := content f @ chunk\<rparr>)\<rparr>)))"

subsection \<open>The utilities of \<^verbatim>\<open>./util\<close>\<close>

text \<open>
  Modelled from the spec: \<^verbatim>\<open>log\<close> of \<^verbatim>\<open>./util\<close> is not among the sources. The spec
  describes a diagnostics collaborator with a \<^verbatim>\<open>debug\<close> and an \<^verbatim>\<open>error\<close> operation; each
  appends its arguments to the log.
\<close>

definition log_debug :: "log_arg list \<Rightarrow> world \<Rightarrow> world" where
  "log_debug args w = w\<lparr>logged := logged w @ [Debug args]\<rparr>"

definition log_error :: "log_arg list \<Rightarrow> world \<Rightarrow> world" where
  "log_error args w = w\<lparr>logged := logged w @ [ErrorLog args]\<rparr>"

text \<open>
  Modelled from the spec: \<^verbatim>\<open>assert\<close> of \<^verbatim>\<open>./util\<close> is not among the sources. A condition
  that does not hold is a fatal precondition failure, raised with the explanation.
\<close>

definition assert :: "bool \<Rightarrow> string \<Rightarrow> error + unit" where
  "assert condition explanation = (if condition then Inr () else Inl (AssertionError explanation))"

subsection \<open>\<^verbatim>\<open>fetchRelease\<close>\<close>

definition GITHUB_API_ENDPOINT_URL :: string where
  "GITHUB_API_ENDPOINT_URL = ''https://api.github.com''"

definition OWNER :: string where
  "OWNER = ''rust-analyzer''"

definition REPO :: string where
  "REPO = ''rust-analyzer''"

text \<open>A status code in a template literal: its decimal digits.\<close>

definition digit_char :: "nat \<Rightarrow> char" where
  "digit_char d = ''0123456789'' ! d"

fun show_nat :: "nat \<Rightarrow> string" where
  "show_nat n =
     (if n < 10 then [digit_char n]
      else show_nat (n div 10) @ [digit_char (n mod 10)])"

declare show_nat.simps [simp del]

definition release_url :: "string \<Rightarrow> string" where
  "release_url releaseTag =
     GITHUB_API_ENDPOINT_URL @ (''/repos/'' @ OWNER @ ''/'' @ REPO @ ''/releases/tags/'' @ releaseTag)"

text \<open>
  The release is the parsed body itself: the source casts it to \<^verbatim>\<open>GithubRelease\<close> with no
  check at run time, so the model returns the JSON value, whose fields are read by
  \<open>get_prop\<close>. Evaluating the argument of \<^verbatim>\<open>log.error\<close> awaits \<^verbatim>\<open>response.text()\<close>, whose
  rejection is thrown in place of the module's own error, before anything is logged.
\<close>

definition fetchRelease :: "platform \<Rightarrow> string \<Rightarrow> world \<Rightarrow> (error + json) \<times> world" where
  "fetchRelease p releaseTag w =
     (let requestUrl = release_url releaseTag;
          w1 = log_debug [LStr ''Issuing request for released artifacts metadata to'', LStr requestUrl] w
      in case fetch p requestUrl [(''Accept'', ''application/vnd.github.v3+json'')] of
           Inl e \<Rightarrow> (Inl e, w1)
         | Inr response \<Rightarrow>
             if \<not> ok response then
               (case body_text response of
                  Inl e \<Rightarrow> (Inl e, w1)
                | Inr body \<Rightarrow>
                    (Inl (Error (''Got response '' @ show_nat (status response) @
                                 '' when trying to fetch '' @
                                 ''release info for '' @ releaseTag @ '' release'')),
                     log_error
                       [LStr ''Error fetching artifact release info'',
                        LObj [(''requestUrl'', LStr requestUrl),
                              (''releaseTag'', LStr releaseTag),
                              (''response'',
                               LObj [(''headers'', LHeaders (headers response)),
                                     (''status'', LNat (status response)),
                                     (''body'', LStr body)])]]
                       w1))
             else
               (case body_json response of
                  Inl e \<Rightarrow> (Inl e, w1)
                | Inr release \<Rightarrow> (Inr release, w1)))"

subsection \<open>\<^verbatim>\<open>downloadFile\<close>\<close>

text \<open>
  The body stream piped into the write stream. For each chunk the \<^verbatim>\<open>data\<close> listener
  registered first runs first (\<^verbatim>\<open>readBytes += chunk.length; onProgress(readBytes,
  totalBytes)\<close>), then the chunk is written to the file. A failed write and a failure of
  the body stream both reject the pipeline, and no further chunk is delivered.
  \<open>readBytes\<close> is a sum of buffer lengths, a natural number. The callback acts on the
  state \<open>'s\<close> of its closure.
\<close>

fun pipeline ::
  "platform \<Rightarrow> path \<Rightarrow> (nat \<Rightarrow> jsnum \<Rightarrow> 's \<Rightarrow> 's) \<Rightarrow> jsnum \<Rightarrow> buffer list \<Rightarrow> error option \<Rightarrow>
   nat \<Rightarrow> nat \<Rightarrow> 's \<Rightarrow> world \<Rightarrow> (error + unit) \<times> 's \<times> world" where
  "pipeline p destFilePath onProgress totalBytes [] ending i readBytes s w =
     (case ending of None \<Rightarrow> (Inr (), s, w) | Some e \<Rightarrow> (Inl e, s, w))"
| "pipeline p destFilePath onProgress totalBytes (chunk # chunks) ending i readBytes s w =
     (let readBytes' = readBytes + length chunk;
          s' = onProgress readBytes' totalBytes s
      in case write_chunk p destFilePath i chunk w of
           (Inl e, w') \<Rightarrow> (Inl e, s', w')
         | (Inr u, w') \<Rightarrow>
             pipeline p destFilePath onProgress totalBytes chunks ending (Suc i) readBytes' s' w')"

text \<open>
  After the pipeline the source destroys the write stream and waits for its \<^verbatim>\<open>close\<close>
  event; in the model the file is closed when the pipeline is done.
\<close>

definition downloadFile ::
  "platform \<Rightarrow> string \<Rightarrow> path \<Rightarrow> nat option \<Rightarrow> (nat \<Rightarrow> jsnum \<Rightarrow> 's \<Rightarrow> 's) \<Rightarrow> 's \<Rightarrow> world \<Rightarrow>
   (error + unit) \<times> 's \<times> world" where
  "downloadFile p url destFilePath mode onProgress s w =
     (case fetch p url [] of
        Inl e \<Rightarrow> (Inl e, s, w)
      | Inr res \<Rightarrow>
          if \<not> ok res then
            (let w1 = log_error [LStr ''Error'', LNat (status res),
                                 LStr ''while downloading file from'', LStr url] w
             in case body_text res of
                  Inl e \<Rightarrow> (Inl e, s, w1)
                | Inr body \<Rightarrow>
                    (Inl (Error (''Got response '' @ show_nat (status res) @
                                 '' when trying to download a file.'')),
                     s,
                     log_error [LObj [(''body'', LStr body), (''headers'', LHeaders (headers res))]] w1))
          else
            (let totalBytes = Number (headers_get (headers res) ''content-length'') in
             case assert (\<not> isNaN totalBytes) ''Sanity check of content-length protocol'' of
               Inl e \<Rightarrow> (Inl e, s, w)
             | Inr u \<Rightarrow>
                 (let w1 = log_debug [LStr ''Downloading file of'', LNum totalBytes,
                                      LStr ''bytes size from'', LStr url,
                                      LStr ''to'', LStr destFilePath] w
                  in case createWriteStream p destFilePath mode w1 of
                       (Inl e, w2) \<Rightarrow> (Inl e, s, w2)
                     | (Inr u, w2) \<Rightarrow>
                         pipeline p destFilePath onProgress totalBytes
                           (body_chunks res) (body_end res) 0 0 s w2)))"

subsection \<open>\<^verbatim>\<open>withTempDir\<close> and \<^verbatim>\<open>moveFile\<close>\<close>

text \<open>
  The removal in the \<^verbatim>\<open>finally\<close> block is issued and not awaited; its rejection goes
  to \<^verbatim>\<open>log.error\<close>. The model runs it to its end at the place where it is issued.
\<close>

definition withTempDir ::
  "platform \<Rightarrow> (path \<Rightarrow> world \<Rightarrow> (error + 'a) \<times> world) \<Rightarrow> world \<Rightarrow> (error + 'a) \<times> world" where
  "withTempDir p scope w =
     (case realpath p (os_tmpdir p) w of
        (Inl e, w1) \<Rightarrow> (Inl e, w1)
      | (Inr osTempDir, w1) \<Rightarrow>
          (case mkdtemp p (path_join p osTempDir ''rust-analyzer'') w1 of
             (Inl e, w2) \<Rightarrow> (Inl e, w2)
           | (Inr tempDir, w2) \<Rightarrow>
               (case scope tempDir w2 of
                  (r, w3) \<Rightarrow>
                    (r, case rmdir_recursive p tempDir w3 of
                          (Inl e, w4) \<Rightarrow> log_error [LErr e] w4
                        | (Inr u, w4) \<Rightarrow> w4))))"

definition moveFile :: "platform \<Rightarrow> path \<Rightarrow> path \<Rightarrow> world \<Rightarrow> (error + unit) \<times> world" where
  "moveFile p src dest w =
     (case rename p src dest w of
        (Inr u, w1) \<Rightarrow> (Inr (), w1)
      | (Inl err, w1) \<Rightarrow>
          if err_code err = Some ''EXDEV'' then
            (case copyFile p src dest w1 of
               (Inl e, w2) \<Rightarrow> (Inl e, w2)
             | (Inr u, w2) \<Rightarrow> unlink p src w2)
          else
            (Inl err,
             log_error [LStr (''Failed to rename the file '' @ src @ '' -> '' @ dest), LErr err] w1))"

subsection \<open>\<^verbatim>\<open>download\<close>\<close>

record DownloadOpts =
  progressTitle :: string
  url :: string
  dest :: path
  mode :: "nat option"

text \<open>
  \<^verbatim>\<open>vscode.window.withProgress\<close> runs the task with a fresh progress object and settles
  as the task does; the reports the task made are what the notification showed.
\<close>

definition withProgress ::
  "string \<Rightarrow> (report list \<Rightarrow> world \<Rightarrow> (error + 'a) \<times> report list \<times> world) \<Rightarrow> world \<Rightarrow>
   (error + 'a) \<times> world" where
  "withProgress title task w =
     (case task [] w of
        (r, progress, w') \<Rightarrow> (r, w'\<lparr>notifications := notifications w' @ [(title, progress)]\<rparr>))"

text \<open>
  The callback that \<^verbatim>\<open>download\<close> passes to \<^verbatim>\<open>downloadFile\<close>. Its closure holds
  \<^verbatim>\<open>lastPercentage\<close> and the progress object.
\<close>

definition onProgress_report :: "nat \<Rightarrow> jsnum \<Rightarrow> jsnum \<times> report list \<Rightarrow> jsnum \<times> report list" where
  "onProgress_report readBytes totalBytes st =
     (case st of
        (lastPercentage, progress) \<Rightarrow>
          (let newPercentage = js_mul (js_div (js_of_nat readBytes) totalBytes) (Fin 100) in
           (newPercentage,
            progress @ [\<lparr>message = newPercentage,
                         increment = js_sub newPercentage lastPercentage\<rparr>])))"

definition download :: "platform \<Rightarrow> DownloadOpts \<Rightarrow> world \<Rightarrow> (error + unit) \<times> world" where
  "download p opts w =
     withTempDir p
       (\<lambda>tempDir w0.
          let tempFile = path_join p tempDir (path_basename p (dest opts)) in
          case withProgress (progressTitle opts)
                 (\<lambda>progress w1.
                    case downloadFile p (url opts) tempFile (mode opts) onProgress_report
                           (Fin 0, progress) w1 of
                      (r, (lastPercentage, progress'), w2) \<Rightarrow> (r, progress', w2))
                 w0 of
            (Inl e, w3) \<Rightarrow> (Inl e, w3)
          | (Inr u, w3) \<Rightarrow> moveFile p tempFile (dest opts) w3)
       w"

subsection \<open>A concrete platform and world\<close>

text \<open>
  A POSIX-like platform for the concrete evaluations below: the server, the faults and
  the devices are given; paths are joined with a slash, \<^verbatim>\<open>realpath\<close> is the identity,
  a failed copy leaves its destination as it was.
\<close>

definition demo_platform ::
  "(string \<Rightarrow> (string \<times> string) list \<Rightarrow> error + response) \<Rightarrow> (syscall \<Rightarrow> error option) \<Rightarrow>
   (path \<Rightarrow> nat) \<Rightarrow> platform" where
  "demo_platform server faults dev =
     \<lparr>fetch = server,
      fault = faults,
      os_tmpdir = ''/tmp'',
      realpath_of = (\<lambda>q. q),
      mkdtemp_suffix = (\<lambda>prefix. ''Ab12Cd''),
      path_join = (\<lambda>d b. d @ ''/'' @ b),
      path_basename = (\<lambda>q. rev (takeWhile (\<lambda>c. c \<noteq> CHR ''/'') (rev q))),
      lies_in = (\<lambda>d q. q = d \<or> take (Suc (length d)) q = d @ ''/''),
      device = dev,
      copy_residue = (\<lambda>src dst old. old)\<rparr>"

definition no_faults :: "syscall \<Rightarrow> error option" where
  "no_faults c = None"

definition empty_world :: world where
  "empty_world = \<lparr>files = Map.empty, dirs = {}, logged = [], trace = [], notifications = []\<rparr>"

text \<open>A server that answers every request with the same response.\<close>

definition always :: "response \<Rightarrow> string \<Rightarrow> (string \<times> string) list \<Rightarrow> error + response" where
  "always r u hs = Inr r"

definition json_response :: "nat \<Rightarrow> json \<Rightarrow> response" where
  "json_response st v =
     \<lparr>status = st, headers = [(''content-type'', ''application/json'')],
      body_text = Inr ''(json)'', body_json = Inr v, body_chunks = [], body_end = None\<rparr>"

definition not_found :: response where
  "not_found =
     \<lparr>status = 404, headers = [], body_text = Inr ''Not Found'',
      body_json = Inl (Error ''invalid json response body''), body_chunks = [], body_end = None\<rparr>"

text \<open>A server that answers one URL and refuses every other request.\<close>

definition serve_at :: "string \<Rightarrow> response \<Rightarrow> string \<Rightarrow> (string \<times> string) list \<Rightarrow> error + response" where
  "serve_at u0 r u hs = (if u = u0 then Inr r else Inl (Error ''request failed''))"

text \<open>The payload of the spec's example for the tag \<^verbatim>\<open>v1.2.3\<close>.\<close>

definition example_release :: json where
  "example_release =
     JObject [(''name'', JString ''v1.2.3''),
              (''id'', JNumber (Fin 42)),
              (''published_at'', JString ''2021-01-01T00:00:00Z''),
              (''assets'',
               JArray [JObject [(''name'', JString ''tool-linux''),
                                (''browser_download_url'', JString ''https://x/tool-linux'')]])]"

text \<open>\<open>embeds s t\<close>: the text \<open>s\<close> occurs in the text \<open>t\<close>.\<close>

fun embeds :: "string \<Rightarrow> string \<Rightarrow> bool" where
  "embeds s [] = (s = [])"
| "embeds s (c # t) = (take (length s) (c # t) = s \<or> embeds s t)"

subsection \<open>The calls a download makes to its callback\<close>

text \<open>
  The arguments of the calls of \<^verbatim>\<open>onProgress\<close> for a sequence of chunks, as the spec
  words them: one call per chunk, in order, with the bytes read so far (starting after
  \<open>readBytes\<close>) and the same total.
\<close>

fun progress_calls :: "nat \<Rightarrow> jsnum \<Rightarrow> buffer list \<Rightarrow> (nat \<times> jsnum) list" where
  "progress_calls readBytes totalBytes [] = []"
| "progress_calls readBytes totalBytes (chunk # chunks) =
     (readBytes + length chunk, totalBytes) #
     progress_calls (readBytes + length chunk) totalBytes chunks"

text \<open>Running a callback over a list of calls.\<close>

definition run_calls :: "(nat \<Rightarrow> jsnum \<Rightarrow> 's \<Rightarrow> 's) \<Rightarrow> 's \<Rightarrow> (nat \<times> jsnum) list \<Rightarrow> 's" where
  "run_calls onProgress s calls = foldl (\<lambda>st c. onProgress (fst c) (snd c) st) s calls"


text \<open>A success response that streams the given chunks.\<close>

definition file_response :: "(string \<times> string) list \<Rightarrow> buffer list \<Rightarrow> error option \<Rightarrow> response" where
  "file_response hs chunks ending =
     \<lparr>status = 200, headers = hs, body_text = Inr [],
      body_json = Inl (Error ''invalid json response body''),
      body_chunks = chunks, body_end = ending\<rparr>"


text \<open>A fault for one system call.\<close>

definition fault_at :: "syscall \<Rightarrow> error \<Rightarrow> syscall \<Rightarrow> error option" where
  "fault_at c e c' = (if c' = c then Some e else None)"








section \<open>Release metadata\<close>

lemma release_url_example:
  "release_url ''v1.2.3'' =
     ''https://api.github.com/repos/rust-analyzer/rust-analyzer/releases/tags/v1.2.3''"
  by (simp add: release_url_def GITHUB_API_ENDPOINT_URL_def OWNER_def REPO_def)

lemma embeds_prefix: "embeds s (s @ b)"
proof (cases "s @ b")
  case Nil
  then show ?thesis by simp
next
  case (Cons c t)
  have "take (length s) (s @ b) = s" by simp
  then have "take (length s) (c # t) = s" using Cons by simp
  then have "embeds s (c # t)" by simp
  then show ?thesis using Cons by simp
qed

lemma embeds_append: "embeds s (a @ s @ b)"
proof (induction a)
  case Nil
  show ?case using embeds_prefix by simp
next
  case (Cons c a)
  then show ?case by simp
qed

text \<open>
  Claim C8. A call \<^verbatim>\<open>fetchRelease("v1.2.3")\<close> against a server that answers the request
  for the tag's URL with a success status and the example payload returns a release whose
  \<^verbatim>\<open>id\<close> is 42 and whose \<^verbatim>\<open>assets\<close> hold exactly one asset, named \<^verbatim>\<open>tool-linux\<close>.
\<close>

theorem fetchRelease_example:
  assumes "fetch p ''https://api.github.com/repos/rust-analyzer/rust-analyzer/releases/tags/v1.2.3''
             [(''Accept'', ''application/vnd.github.v3+json'')] = Inr response"
    and "ok response"
    and "body_json response = Inr example_release"
  shows "\<exists>release asset.
           fst (fetchRelease p ''v1.2.3'' w) = Inr release
         \<and> get_prop release ''id'' = Some (JNumber (Fin 42))
         \<and> get_prop release ''assets'' = Some (JArray [asset])
         \<and> get_prop asset ''name'' = Some (JString ''tool-linux'')"
  using assms by (simp add: fetchRelease_def release_url_example example_release_def)

theorem fetchRelease_example_witness:
  "\<exists>release asset.
     fst (fetchRelease
            (demo_platform
               (serve_at ''https://api.github.com/repos/rust-analyzer/rust-analyzer/releases/tags/v1.2.3''
                  (json_response 200 example_release))
               no_faults (\<lambda>q. 0))
            ''v1.2.3'' empty_world) = Inr release
   \<and> get_prop release ''id'' = Some (JNumber (Fin 42))
   \<and> get_prop release ''assets'' = Some (JArray [asset])
   \<and> get_prop asset ''name'' = Some (JString ''tool-linux'')"
  using fetchRelease_example
    [of "demo_platform
           (serve_at ''https://api.github.com/repos/rust-analyzer/rust-analyzer/releases/tags/v1.2.3''
              (json_response 200 example_release))
           no_faults (\<lambda>q. 0)"
        "json_response 200 example_release" empty_world]
  by (simp add: demo_platform_def serve_at_def json_response_def ok_def)

text \<open>
  Claim C3, as stated, fails: a success response whose payload is the empty object, with
  none of the expected fields, is returned as the release, and no error is raised.
\<close>

theorem fetchRelease_missing_fields_counterexample:
  "fst (fetchRelease (demo_platform (always (json_response 200 (JObject []))) no_faults (\<lambda>q. 0))
          ''v1.2.3'' empty_world) = Inr (JObject [])
   \<and> get_prop (JObject []) ''id'' = None
   \<and> get_prop (JObject []) ''assets'' = None"
  by (simp add: fetchRelease_def demo_platform_def always_def json_response_def ok_def)

text \<open>
  Claim C3, amended. For every call whose HTTP response is a success and whose body parses
  as JSON, \<^verbatim>\<open>fetchRelease\<close> returns the parsed payload as it is, whatever fields it has,
  and logs only the request: a missing field is missing (\<^verbatim>\<open>undefined\<close>) in the release
  returned, and no error is raised for it.
\<close>

theorem fetchRelease_payload_unchecked:
  assumes "fetch p (release_url releaseTag) [(''Accept'', ''application/vnd.github.v3+json'')] = Inr response"
    and "ok response"
    and "body_json response = Inr release"
  shows "fetchRelease p releaseTag w =
           (Inr release,
            log_debug [LStr ''Issuing request for released artifacts metadata to'',
                       LStr (release_url releaseTag)] w)"
  using assms by (simp add: fetchRelease_def)

theorem fetchRelease_payload_unchecked_witness:
  "fst (fetchRelease
          (demo_platform (always (json_response 200 (JObject [(''name'', JString ''v1'')])))
             no_faults (\<lambda>q. 0))
          ''v1'' empty_world) = Inr (JObject [(''name'', JString ''v1'')])
   \<and> get_prop (JObject [(''name'', JString ''v1'')]) ''assets'' = None"
  using fetchRelease_payload_unchecked
    [of "demo_platform (always (json_response 200 (JObject [(''name'', JString ''v1'')])))
           no_faults (\<lambda>q. 0)"
        "''v1''" "json_response 200 (JObject [(''name'', JString ''v1'')])"
        "JObject [(''name'', JString ''v1'')]" empty_world]
  by (simp add: demo_platform_def always_def json_response_def ok_def)

text \<open>
  Claim C7, as stated, fails: for a 404 response the error thrown carries the status code
  and the release tag in its message, and neither the request URL nor the body of the
  response.
\<close>

theorem fetchRelease_error_embeds_counterexample:
  "fst (fetchRelease (demo_platform (always not_found) no_faults (\<lambda>q. 0)) ''v1.2.3'' empty_world) =
     Inl (Error ''Got response 404 when trying to fetch release info for v1.2.3 release'')
   \<and> \<not> embeds ''https://api.github.com/repos/rust-analyzer/rust-analyzer/releases/tags/v1.2.3''
          ''Got response 404 when trying to fetch release info for v1.2.3 release''
   \<and> \<not> embeds ''Not Found''
          ''Got response 404 when trying to fetch release info for v1.2.3 release''"
proof -
  have "fst (fetchRelease (demo_platform (always not_found) no_faults (\<lambda>q. 0)) ''v1.2.3'' empty_world) =
     Inl (Error ''Got response 404 when trying to fetch release info for v1.2.3 release'')"
    by (simp add: fetchRelease_def demo_platform_def always_def not_found_def ok_def Let_def
        digit_char_def show_nat.simps)
  moreover have "\<not> embeds ''https://api.github.com/repos/rust-analyzer/rust-analyzer/releases/tags/v1.2.3''
          ''Got response 404 when trying to fetch release info for v1.2.3 release''"
    by code_simp
  moreover have "\<not> embeds ''Not Found''
          ''Got response 404 when trying to fetch release info for v1.2.3 release''"
    by code_simp
  ultimately show ?thesis by blast
qed

text \<open>
  Claim C7, amended. For every call whose HTTP response status is not a success, no
  release is returned: the call fails. When the body of the response can be read, the
  error thrown is an \<^verbatim>\<open>Error\<close> whose message embeds the status code and the release tag,
  and the request URL, the tag and the response's headers, status and body are written
  to the error log for diagnostics.
\<close>

theorem fetchRelease_not_ok:
  assumes "fetch p (release_url releaseTag) [(''Accept'', ''application/vnd.github.v3+json'')] = Inr response"
    and "\<not> ok response"
  shows "(\<exists>e. fst (fetchRelease p releaseTag w) = Inl e)
       \<and> (\<forall>body. body_text response = Inr body \<longrightarrow>
            (\<exists>msg. fst (fetchRelease p releaseTag w) = Inl (Error msg)
                 \<and> embeds (show_nat (status response)) msg \<and> embeds releaseTag msg)
          \<and> logged (snd (fetchRelease p releaseTag w)) =
              logged w @
              [Debug [LStr ''Issuing request for released artifacts metadata to'',
                      LStr (release_url releaseTag)],
               ErrorLog [LStr ''Error fetching artifact release info'',
                         LObj [(''requestUrl'', LStr (release_url releaseTag)),
                               (''releaseTag'', LStr releaseTag),
                               (''response'',
                                LObj [(''headers'', LHeaders (headers response)),
                                      (''status'', LNat (status response)),
                                      (''body'', LStr body)])]]])"
proof -
  have e1: "embeds (show_nat (status response))
              (''Got response '' @ show_nat (status response) @
               '' when trying to fetch '' @ ''release info for '' @ releaseTag @ '' release'')"
    by (rule embeds_append)
  have "embeds releaseTag
          ((''Got response '' @ show_nat (status response) @
            '' when trying to fetch '' @ ''release info for '') @ releaseTag @ '' release'')"
    by (rule embeds_append)
  then have e2: "embeds releaseTag
              (''Got response '' @ show_nat (status response) @
               '' when trying to fetch '' @ ''release info for '' @ releaseTag @ '' release'')"
    by simp
  show ?thesis
    using assms e1 e2
    by (cases "body_text response")
       (simp_all add: fetchRelease_def Let_def log_error_def log_debug_def)
qed

theorem fetchRelease_not_ok_witness:
  "fst (fetchRelease (demo_platform (always not_found) no_faults (\<lambda>q. 0)) ''v1.2.3'' empty_world) =
     Inl (Error ''Got response 404 when trying to fetch release info for v1.2.3 release'')
   \<and> logged (snd (fetchRelease (demo_platform (always not_found) no_faults (\<lambda>q. 0)) ''v1.2.3''
                   empty_world)) =
       [Debug [LStr ''Issuing request for released artifacts metadata to'',
               LStr ''https://api.github.com/repos/rust-analyzer/rust-analyzer/releases/tags/v1.2.3''],
        ErrorLog [LStr ''Error fetching artifact release info'',
                  LObj [(''requestUrl'',
                         LStr ''https://api.github.com/repos/rust-analyzer/rust-analyzer/releases/tags/v1.2.3''),
                        (''releaseTag'', LStr ''v1.2.3''),
                        (''response'',
                         LObj [(''headers'', LHeaders []), (''status'', LNat 404),
                               (''body'', LStr ''Not Found'')])]]]"
  using fetchRelease_not_ok
    [of "demo_platform (always not_found) no_faults (\<lambda>q. 0)" "''v1.2.3''" not_found empty_world]
  by (simp add: demo_platform_def always_def not_found_def ok_def empty_world_def
      release_url_example fetchRelease_def Let_def digit_char_def show_nat.simps log_error_def
      log_debug_def)

section \<open>The streaming downloader\<close>

lemma write_chunk_cases:
  "write_chunk p d i c w = (r, w') \<Longrightarrow>
     trace w' = trace w @ [SysWrite d i] \<and> dirs w' = dirs w \<and> logged w' = logged w
     \<and> notifications w' = notifications w
     \<and> (\<forall>q. q \<noteq> d \<longrightarrow> files w' q = files w q)
     \<and> (case r of
           Inl e \<Rightarrow> files w' = files w
         | Inr u \<Rightarrow> (\<exists>f. files w d = Some f \<and> files w' d = Some (f\<lparr>content := content f @ c\<rparr>)))"
  by (auto simp: write_chunk_def issue_def Let_def split: option.splits)

lemma run_calls_Cons: "run_calls cb s (c # cs) = run_calls cb (cb (fst c) (snd c) s) cs"
  by (simp add: run_calls_def)

lemma pipeline_calls:
  "\<exists>k\<le>length chunks.
      fst (snd (pipeline p d cb t chunks e i rb s w)) = run_calls cb s (progress_calls rb t (take k chunks))
    \<and> (\<forall>u. fst (pipeline p d cb t chunks e i rb s w) = Inr u \<longrightarrow> k = length chunks)"
proof (induction chunks arbitrary: i rb s w)
  case Nil
  show ?case by (simp add: run_calls_def split: option.splits)
next
  case (Cons c cs)
  obtain r w' where wr: "write_chunk p d i c w = (r, w')" by (cases "write_chunk p d i c w")
  show ?case
  proof (cases r)
    case (Inl err)
    have "fst (snd (pipeline p d cb t (c # cs) e i rb s w)) = run_calls cb s (progress_calls rb t (take 1 (c # cs)))"
      using wr Inl by (simp add: Let_def run_calls_def)
    moreover have "\<forall>u. fst (pipeline p d cb t (c # cs) e i rb s w) \<noteq> Inr u"
      using wr Inl by (simp add: Let_def)
    ultimately show ?thesis by (intro exI[of _ 1]) simp
  next
    case (Inr u)
    from Cons.IH[of "Suc i" "rb + length c" "cb (rb + length c) t s" w']
    obtain k where k: "k \<le> length cs"
      "fst (snd (pipeline p d cb t cs e (Suc i) (rb + length c) (cb (rb + length c) t s) w')) =
         run_calls cb (cb (rb + length c) t s) (progress_calls (rb + length c) t (take k cs))"
      "\<forall>u. fst (pipeline p d cb t cs e (Suc i) (rb + length c) (cb (rb + length c) t s) w') = Inr u \<longrightarrow> k = length cs"
      by blast
    have eq: "pipeline p d cb t (c # cs) e i rb s w = pipeline p d cb t cs e (Suc i) (rb + length c) (cb (rb + length c) t s) w'"
      using wr Inr by (simp add: Let_def)
    show ?thesis
      using k by (intro exI[of _ "Suc k"]) (simp add: eq run_calls_Cons del: pipeline.simps)
  qed
qed

lemma pipeline_frame:
  "pipeline p d cb t chunks e i rb s w = (r, s', w') \<Longrightarrow>
     dirs w' = dirs w \<and> logged w' = logged w \<and> notifications w' = notifications w
     \<and> (\<forall>q. q \<noteq> d \<longrightarrow> files w' q = files w q)
     \<and> (\<exists>rest. trace w' = trace w @ rest \<and> (\<forall>c\<in>set rest. \<exists>j. c = SysWrite d j))"
proof (induction chunks arbitrary: i rb s w)
  case Nil
  then show ?case by (auto split: option.splits)
next
  case (Cons c cs)
  obtain r1 w1 where wr: "write_chunk p d i c w = (r1, w1)" by (cases "write_chunk p d i c w")
  note f1 = write_chunk_cases[OF wr]
  show ?case
  proof (cases r1)
    case (Inl err)
    then have "w' = w1" using Cons.prems wr by (simp add: Let_def)
    then show ?thesis using f1 by auto
  next
    case (Inr u)
    then have "pipeline p d cb t cs e (Suc i) (rb + length c) (cb (rb + length c) t s) w1 = (r, s', w')"
      using Cons.prems wr by (simp add: Let_def)
    from Cons.IH[OF this] show ?thesis using f1 by auto
  qed
qed


lemma createWriteStream_cases:
  "createWriteStream p d m w = (r, w') \<Longrightarrow>
     trace w' = trace w @ [SysOpen d m] \<and> dirs w' = dirs w \<and> logged w' = logged w
     \<and> notifications w' = notifications w
     \<and> (\<forall>q. q \<noteq> d \<longrightarrow> files w' q = files w q)
     \<and> (case r of
           Inl e \<Rightarrow> files w' = files w
         | Inr u \<Rightarrow> (\<exists>f. files w' d = Some f \<and> content f = []))"
  by (auto simp: createWriteStream_def issue_def Let_def split: option.splits)

lemma downloadFile_proceeds:
  assumes "fetch p addr [] = Inr res"
    and "ok res"
    and "\<not> isNaN (Number (headers_get (headers res) ''content-length''))"
  shows "\<exists>rest. trace (snd (snd (downloadFile p addr destFilePath perm onProgress s w))) =
           trace w @ SysOpen destFilePath perm # rest"
proof -
  let ?t = "Number (headers_get (headers res) ''content-length'')"
  let ?w1 = "log_debug [LStr ''Downloading file of'', LNum ?t,
                                      LStr ''bytes size from'', LStr addr,
                                      LStr ''to'', LStr destFilePath] w"
  obtain r2 w2 where op: "createWriteStream p destFilePath perm ?w1 = (r2, w2)"
    by (cases "createWriteStream p destFilePath perm ?w1")
  have t2: "trace w2 = trace w @ [SysOpen destFilePath perm]"
    using createWriteStream_cases[OF op] by (simp add: log_debug_def)
  show ?thesis
  proof (cases r2)
    case (Inl e)
    then have "downloadFile p addr destFilePath perm onProgress s w = (Inl e, s, w2)"
      using assms op by (simp add: downloadFile_def assert_def Let_def)
    then show ?thesis using t2 by simp
  next
    case (Inr u)
    then have eq: "downloadFile p addr destFilePath perm onProgress s w =
        pipeline p destFilePath onProgress ?t (body_chunks res) (body_end res) 0 0 s w2"
      using assms op by (simp add: downloadFile_def assert_def Let_def)
    obtain r3 s3 w3 where pl: "pipeline p destFilePath onProgress ?t (body_chunks res) (body_end res) 0 0 s w2 = (r3, s3, w3)"
      by (metis prod_cases3)
    from pipeline_frame[OF pl] obtain rest where "trace w3 = trace w2 @ rest" by blast
    then show ?thesis using t2 eq pl by simp
  qed
qed

lemma StringToNumber_abc: "StringToNumber ''abc'' = NaN" by code_simp

text \<open>
  Claim C10. For every download whose response carries a \<^verbatim>\<open>content-length\<close> header with
  a value that converts to \<open>NaN\<close>, the sanity check fails before the destination's write
  stream is created: the download fails with the assertion's error, the callback is never
  called, and the world, its files and the trace of system calls included, is as before,
  so no byte is written.
\<close>

theorem downloadFile_nan_content_length:
  assumes "fetch p addr [] = Inr res"
    and "ok res"
    and "headers_get (headers res) ''content-length'' = Some v"
    and "isNaN (StringToNumber v)"
  shows "downloadFile p addr destFilePath perm onProgress s w =
           (Inl (AssertionError ''Sanity check of content-length protocol''), s, w)"
  using assms by (simp add: downloadFile_def Number_def assert_def)

theorem downloadFile_nan_content_length_witness:
  "downloadFile (demo_platform (always (file_response [(''content-length'', ''abc'')] [[1, 2, 3]] None)) no_faults (\<lambda>q. 0))
     ''https://x/tool-linux'' ''/tmp/rust-analyzerAb12Cd/tool'' None (\<lambda>r t calls. calls @ [(r, t)]) [] empty_world
   = (Inl (AssertionError ''Sanity check of content-length protocol''), [], empty_world)"
  using downloadFile_nan_content_length
    [of "demo_platform (always (file_response [(''content-length'', ''abc'')] [[1, 2, 3]] None)) no_faults (\<lambda>q. 0)"
        "''https://x/tool-linux''" "file_response [(''content-length'', ''abc'')] [[1, 2, 3]] None" "''abc''"]
  by (simp add: demo_platform_def always_def file_response_def ok_def headers_get_def StringToNumber_abc isNaN_def)

lemma StringToNumber_minus_5: "StringToNumber ''-5'' = Fin (- 5)"
  by code_simp

lemma StringToNumber_10: "StringToNumber ''10'' = Fin 10"
  by code_simp

text \<open>
  Claim C2, as stated, fails: with the header value \<^verbatim>\<open>-5\<close>, which is not a non-negative
  integer, and with no \<^verbatim>\<open>content-length\<close> header at all (\<^verbatim>\<open>Number(null)\<close> is 0), the
  download does not fail: it succeeds and the three bytes of the body are in the file.
\<close>

theorem downloadFile_content_length_counterexample:
  "fst (downloadFile
          (demo_platform (always (file_response [(''content-length'', ''-5'')] [[1, 2, 3]] None))
             no_faults (\<lambda>q. 0))
          ''https://x/tool'' ''/tmp/d/tool'' None (\<lambda>r t calls. calls @ [(r, t)]) [] empty_world) = Inr ()
   \<and> map_option content
        (files (snd (snd (downloadFile
          (demo_platform (always (file_response [(''content-length'', ''-5'')] [[1, 2, 3]] None))
             no_faults (\<lambda>q. 0))
          ''https://x/tool'' ''/tmp/d/tool'' None (\<lambda>r t calls. calls @ [(r, t)]) [] empty_world)))
           ''/tmp/d/tool'') = Some [1, 2, 3]
   \<and> fst (downloadFile
          (demo_platform (always (file_response [] [[1, 2, 3]] None)) no_faults (\<lambda>q. 0))
          ''https://x/tool'' ''/tmp/d/tool'' None (\<lambda>r t calls. calls @ [(r, t)]) [] empty_world) = Inr ()
   \<and> map_option content
        (files (snd (snd (downloadFile
          (demo_platform (always (file_response [] [[1, 2, 3]] None)) no_faults (\<lambda>q. 0))
          ''https://x/tool'' ''/tmp/d/tool'' None (\<lambda>r t calls. calls @ [(r, t)]) [] empty_world)))
           ''/tmp/d/tool'') = Some [1, 2, 3]"
  by (simp add: downloadFile_def demo_platform_def always_def file_response_def ok_def headers_get_def
        Number_def isNaN_def assert_def Let_def log_debug_def createWriteStream_def issue_def
        no_faults_def empty_world_def write_chunk_def StringToNumber_minus_5)

text \<open>
  Claim C2, amended. For every download whose success response carries a
  \<^verbatim>\<open>content-length\<close> header: if the value does not convert to a number (\<^verbatim>\<open>Number\<close> of
  it is \<open>NaN\<close>), the download fails with the assertion's error before any byte is
  written, the world being as before; if the value converts to a number, whether or not
  that is a non-negative integer, the check passes and the download goes on to open the
  destination file.
\<close>

theorem downloadFile_content_length_check:
  assumes "fetch p addr [] = Inr res"
    and "ok res"
    and "headers_get (headers res) ''content-length'' = Some v"
  shows "if isNaN (StringToNumber v)
         then downloadFile p addr destFilePath perm onProgress s w =
                (Inl (AssertionError ''Sanity check of content-length protocol''), s, w)
         else (\<exists>rest. trace (snd (snd (downloadFile p addr destFilePath perm onProgress s w))) =
                 trace w @ SysOpen destFilePath perm # rest)"
proof (cases "isNaN (StringToNumber v)")
  case True
  then show ?thesis
    using assms by (simp add: downloadFile_def Number_def assert_def)
next
  case False
  then have "\<not> isNaN (Number (headers_get (headers res) ''content-length''))"
    using assms(3) by (simp add: Number_def)
  from downloadFile_proceeds[OF assms(1,2) this] show ?thesis
    using False by simp
qed

theorem downloadFile_content_length_check_witness:
  "downloadFile
     (demo_platform (always (file_response [(''content-length'', ''abc'')] [[1, 2, 3]] None))
        no_faults (\<lambda>q. 0))
     ''https://x/tool'' ''/tmp/d/tool'' None (\<lambda>r t calls. calls @ [(r, t)]) [] empty_world =
     (Inl (AssertionError ''Sanity check of content-length protocol''), [], empty_world)
   \<and> (\<exists>rest. trace (snd (snd (downloadFile
         (demo_platform (always (file_response [(''content-length'', ''10'')] [[1, 2, 3]] None))
            no_faults (\<lambda>q. 0))
         ''https://x/tool'' ''/tmp/d/tool'' None (\<lambda>r t calls. calls @ [(r, t)]) [] empty_world))) =
       trace empty_world @ SysOpen ''/tmp/d/tool'' None # rest)"
proof -
  have a: "fetch (demo_platform (always (file_response [(''content-length'', ''abc'')] [[1, 2, 3]] None))
             no_faults (\<lambda>q. 0)) ''https://x/tool'' [] =
           Inr (file_response [(''content-length'', ''abc'')] [[1, 2, 3]] None)"
    by (simp add: demo_platform_def always_def)
  have b: "fetch (demo_platform (always (file_response [(''content-length'', ''10'')] [[1, 2, 3]] None))
             no_faults (\<lambda>q. 0)) ''https://x/tool'' [] =
           Inr (file_response [(''content-length'', ''10'')] [[1, 2, 3]] None)"
    by (simp add: demo_platform_def always_def)
  have oka: "ok (file_response [(''content-length'', ''abc'')] [[1, 2, 3]] None)"
    and okb: "ok (file_response [(''content-length'', ''10'')] [[1, 2, 3]] None)"
    by (simp_all add: file_response_def ok_def)
  have ha: "headers_get (headers (file_response [(''content-length'', ''abc'')] [[1, 2, 3]] None))
              ''content-length'' = Some ''abc''"
    and hb: "headers_get (headers (file_response [(''content-length'', ''10'')] [[1, 2, 3]] None))
              ''content-length'' = Some ''10''"
    by (simp_all add: file_response_def headers_get_def)
  show ?thesis
    using downloadFile_content_length_check[OF a oka ha, of "''/tmp/d/tool''" None
            "\<lambda>r t calls. calls @ [(r, t)]" "[]" empty_world]
          downloadFile_content_length_check[OF b okb hb, of "''/tmp/d/tool''" None
            "\<lambda>r t calls. calls @ [(r, t)]" "[]" empty_world]
    by (simp add: StringToNumber_abc StringToNumber_10 isNaN_def)
qed

lemma length_progress_calls: "length (progress_calls rb t cs) = length cs"
  by (induction cs arbitrary: rb) simp_all

lemma progress_calls_Nil_iff: "progress_calls rb t cs = [] \<longleftrightarrow> cs = []"
  by (cases cs) simp_all

lemma map_snd_progress_calls: "map snd (progress_calls rb t cs) = replicate (length cs) t"
  by (induction cs arbitrary: rb) simp_all

lemma progress_calls_lower: "x \<in> set (map fst (progress_calls rb t cs)) \<Longrightarrow> rb \<le> x"
proof (induction cs arbitrary: rb)
  case Nil
  then show ?case by simp
next
  case (Cons c cs)
  then show ?case by fastforce
qed

lemma sorted_progress_calls: "sorted (map fst (progress_calls rb t cs))"
proof (induction cs arbitrary: rb)
  case Nil
  show ?case by simp
next
  case (Cons c cs)
  have "\<forall>x\<in>set (map fst (progress_calls (rb + length c) t cs)). rb + length c \<le> x"
    using progress_calls_lower by blast
  with Cons.IH[of "rb + length c"] show ?case by simp
qed

lemma last_progress_calls:
  "cs \<noteq> [] \<Longrightarrow> fst (last (progress_calls rb t cs)) = rb + length (concat cs)"
proof (induction cs arbitrary: rb)
  case Nil
  then show ?case by simp
next
  case (Cons c cs)
  show ?case
  proof (cases cs)
    case Nil
    then show ?thesis by simp
  next
    case (Cons c' cs')
    then have "cs \<noteq> []" by simp
    from Cons.IH[OF this, of "rb + length c"] show ?thesis
      using Cons by simp
  qed
qed

lemma downloadFile_calls:
  assumes "fetch p addr [] = Inr res"
  shows "\<exists>k\<le>length (body_chunks res).
           fst (snd (downloadFile p addr destFilePath perm onProgress s w)) =
             run_calls onProgress s
               (progress_calls 0 (Number (headers_get (headers res) ''content-length''))
                  (take k (body_chunks res)))
         \<and> (\<forall>u. fst (downloadFile p addr destFilePath perm onProgress s w) = Inr u \<longrightarrow>
                k = length (body_chunks res))"
proof -
  let ?t = "Number (headers_get (headers res) ''content-length'')"
  let ?w1 = "log_debug [LStr ''Downloading file of'', LNum ?t,
                        LStr ''bytes size from'', LStr addr,
                        LStr ''to'', LStr destFilePath] w"
  let ?D = "downloadFile p addr destFilePath perm onProgress s w"
  have none: "fst (snd ?D) = s \<Longrightarrow> (\<forall>u. fst ?D \<noteq> Inr u) \<Longrightarrow> ?thesis"
    by (intro exI[of _ 0]) (simp add: run_calls_def)
  obtain r2 w2 where op: "createWriteStream p destFilePath perm ?w1 = (r2, w2)"
    by (cases "createWriteStream p destFilePath perm ?w1")
  show ?thesis
  proof (cases "ok res \<and> \<not> isNaN ?t")
    case False
    then have "fst (snd ?D) = s \<and> (\<forall>u. fst ?D \<noteq> Inr u)"
      using assms by (auto simp: downloadFile_def assert_def Let_def split: sum.splits)
    then show ?thesis using none by blast
  next
    case True
    show ?thesis
    proof (cases r2)
      case (Inl e)
      then have "?D = (Inl e, s, w2)"
        using assms op True by (simp add: downloadFile_def assert_def Let_def)
      then show ?thesis using none by simp
    next
      case (Inr u)
      then have eq: "?D = pipeline p destFilePath onProgress ?t (body_chunks res) (body_end res) 0 0 s w2"
        using assms op True by (simp add: downloadFile_def assert_def Let_def)
      show ?thesis unfolding eq by (rule pipeline_calls)
    qed
  qed
qed

text \<open>
  Claim C5, as stated, fails in its last part: a server announces 10 bytes and streams 4;
  the download succeeds, and the only and final call of the callback reports 4 bytes read
  of 10. Likewise for a response with no \<^verbatim>\<open>content-length\<close> header: the final call
  reports 4 bytes read of 0.
\<close>

theorem downloadFile_final_call_counterexample:
  "fst (downloadFile
          (demo_platform (always (file_response [(''content-length'', ''10'')] [[1, 2, 3, 4]] None))
             no_faults (\<lambda>q. 0))
          ''https://x/tool'' ''/tmp/d/tool'' None (\<lambda>r t calls. calls @ [(r, t)]) [] empty_world) = Inr ()
   \<and> fst (snd (downloadFile
          (demo_platform (always (file_response [(''content-length'', ''10'')] [[1, 2, 3, 4]] None))
             no_faults (\<lambda>q. 0))
          ''https://x/tool'' ''/tmp/d/tool'' None (\<lambda>r t calls. calls @ [(r, t)]) [] empty_world)) =
       [(4, Fin 10)]
   \<and> js_of_nat 4 \<noteq> Fin 10
   \<and> fst (downloadFile
          (demo_platform (always (file_response [] [[1, 2, 3, 4]] None)) no_faults (\<lambda>q. 0))
          ''https://x/tool'' ''/tmp/d/tool'' None (\<lambda>r t calls. calls @ [(r, t)]) [] empty_world) = Inr ()
   \<and> fst (snd (downloadFile
          (demo_platform (always (file_response [] [[1, 2, 3, 4]] None)) no_faults (\<lambda>q. 0))
          ''https://x/tool'' ''/tmp/d/tool'' None (\<lambda>r t calls. calls @ [(r, t)]) [] empty_world)) =
       [(4, Fin 0)]
   \<and> js_of_nat 4 \<noteq> Fin 0"
  by (simp add: downloadFile_def demo_platform_def always_def file_response_def ok_def headers_get_def
        Number_def isNaN_def assert_def Let_def log_debug_def createWriteStream_def issue_def
        no_faults_def empty_world_def write_chunk_def StringToNumber_10 js_of_nat_def)

text \<open>
  Claim C5, amended. For every single download, whatever the callback does, it is called
  exactly once per chunk delivered, in the order of the chunks: the state of its closure
  at the end is the result of running it over the calls \<open>progress_calls\<close> lists for the
  first \<open>k\<close> chunks of the body. The bytes read so far never decrease from one call to
  the next, the total is the same number in every call, and when the download succeeds
  every chunk of the body has been delivered and the final call reports the number of
  bytes of the whole body. That number is the total announced only when the server's
  \<^verbatim>\<open>content-length\<close> is the length of the body it streams.
\<close>

theorem downloadFile_progress_calls:
  assumes "fetch p addr [] = Inr res"
  shows "\<exists>k calls.
           k \<le> length (body_chunks res)
         \<and> calls = progress_calls 0 (Number (headers_get (headers res) ''content-length''))
                     (take k (body_chunks res))
         \<and> fst (snd (downloadFile p addr destFilePath perm onProgress s w)) =
             run_calls onProgress s calls
         \<and> length calls = k
         \<and> sorted (map fst calls)
         \<and> map snd calls = replicate k (Number (headers_get (headers res) ''content-length''))
         \<and> (\<forall>u. fst (downloadFile p addr destFilePath perm onProgress s w) = Inr u \<longrightarrow>
                k = length (body_chunks res)
              \<and> (calls \<noteq> [] \<longrightarrow> fst (last calls) = length (concat (body_chunks res))))"
proof -
  let ?t = "Number (headers_get (headers res) ''content-length'')"
  from downloadFile_calls[OF assms, of destFilePath perm onProgress s w]
  obtain k where k: "k \<le> length (body_chunks res)"
    and st: "fst (snd (downloadFile p addr destFilePath perm onProgress s w)) =
               run_calls onProgress s (progress_calls 0 ?t (take k (body_chunks res)))"
    and all: "\<forall>u. fst (downloadFile p addr destFilePath perm onProgress s w) = Inr u \<longrightarrow>
                k = length (body_chunks res)"
    by blast
  let ?calls = "progress_calls 0 ?t (take k (body_chunks res))"
  have len: "length ?calls = k"
    using k by (simp add: length_progress_calls)
  have tot: "map snd ?calls = replicate k ?t"
    using k by (simp add: map_snd_progress_calls)
  have fin: "\<forall>u. fst (downloadFile p addr destFilePath perm onProgress s w) = Inr u \<longrightarrow>
                k = length (body_chunks res)
              \<and> (?calls \<noteq> [] \<longrightarrow> fst (last ?calls) = length (concat (body_chunks res)))"
  proof (intro allI impI conjI)
    fix u
    assume "fst (downloadFile p addr destFilePath perm onProgress s w) = Inr u"
    then show kk: "k = length (body_chunks res)" using all by blast
    assume ne: "?calls \<noteq> []"
    then have "take k (body_chunks res) \<noteq> []" unfolding progress_calls_Nil_iff .
    from last_progress_calls[OF this, of 0 ?t]
    show "fst (last ?calls) = length (concat (body_chunks res))"
      using kk by simp
  qed
  show ?thesis
    using k st len tot fin sorted_progress_calls[of 0 ?t "take k (body_chunks res)"]
    by blast
qed

theorem downloadFile_progress_calls_witness:
  "\<exists>k calls.
     k \<le> 2
   \<and> calls = progress_calls 0 (Fin 10) (take k [[1, 2, 3, 4], [5, 6, 7, 8, 9, 10]])
   \<and> fst (snd (downloadFile
        (demo_platform
           (always (file_response [(''content-length'', ''10'')] [[1, 2, 3, 4], [5, 6, 7, 8, 9, 10]] None))
           no_faults (\<lambda>q. 0))
        ''https://x/tool'' ''/tmp/d/tool'' None (\<lambda>r t calls. calls @ [(r, t)]) [] empty_world)) =
       run_calls (\<lambda>r t calls. calls @ [(r, t)]) [] calls
   \<and> length calls = k
   \<and> sorted (map fst calls)
   \<and> map snd calls = replicate k (Fin 10)
   \<and> k = 2
   \<and> fst (last calls) = 10"
proof -
  let ?res = "file_response [(''content-length'', ''10'')] [[1, 2, 3, 4], [5, 6, 7, 8, 9, 10 :: 8 word]] None"
  let ?p = "demo_platform (always ?res) no_faults (\<lambda>q. 0)"
  have f: "fetch ?p ''https://x/tool'' [] = Inr ?res"
    by (simp add: demo_platform_def always_def)
  have t: "Number (headers_get (headers ?res) ''content-length'') = Fin 10"
    by (simp add: file_response_def headers_get_def Number_def StringToNumber_10)
  have okd: "fst (downloadFile ?p ''https://x/tool'' ''/tmp/d/tool'' None
                    (\<lambda>r t calls. calls @ [(r, t)]) [] empty_world) = Inr ()"
    by (simp add: downloadFile_def demo_platform_def always_def file_response_def ok_def headers_get_def
        Number_def isNaN_def assert_def Let_def log_debug_def createWriteStream_def issue_def
        no_faults_def empty_world_def write_chunk_def StringToNumber_10)
  have ch: "body_chunks ?res = [[1, 2, 3, 4], [5, 6, 7, 8, 9, 10]]"
    by (simp add: file_response_def)
  from downloadFile_progress_calls[OF f, of "''/tmp/d/tool''" None "\<lambda>r t calls. calls @ [(r, t)]" "[]" empty_world]
  obtain k calls where
    "k \<le> length (body_chunks ?res)"
    "calls = progress_calls 0 (Number (headers_get (headers ?res) ''content-length''))
                     (take k (body_chunks ?res))"
    "fst (snd (downloadFile ?p ''https://x/tool'' ''/tmp/d/tool'' None
                 (\<lambda>r t calls. calls @ [(r, t)]) [] empty_world)) =
       run_calls (\<lambda>r t calls. calls @ [(r, t)]) [] calls"
    "length calls = k"
    "sorted (map fst calls)"
    "map snd calls = replicate k (Number (headers_get (headers ?res) ''content-length''))"
    "\<forall>u. fst (downloadFile ?p ''https://x/tool'' ''/tmp/d/tool'' None
                 (\<lambda>r t calls. calls @ [(r, t)]) [] empty_world) = Inr u \<longrightarrow>
                k = length (body_chunks ?res)
              \<and> (calls \<noteq> [] \<longrightarrow> fst (last calls) = length (concat (body_chunks ?res)))"
    by blast
  then show ?thesis
    unfolding t ch using okd by (intro exI[of _ k] exI[of _ calls]) auto
qed


section \<open>The atomic placer\<close>






section \<open>The temporary workspace\<close>



lemma rmdir_recursive_cases:
  "rmdir_recursive p d w = (r, w') \<Longrightarrow>
     trace w' = trace w @ [SysRmdir d True] \<and> logged w' = logged w
     \<and> notifications w' = notifications w
     \<and> (\<forall>q. \<not> lies_in p d q \<longrightarrow> files w' q = files w q)
     \<and> (case r of
           Inl e \<Rightarrow> fault p (SysRmdir d True) = Some e \<and> files w' = files w \<and> dirs w' = dirs w
         | Inr u \<Rightarrow> fault p (SysRmdir d True) = None
                  \<and> (\<forall>q. lies_in p d q \<longrightarrow> files w' q = None \<and> q \<notin> dirs w'))"
  by (auto simp: rmdir_recursive_def issue_def Let_def split: option.splits if_splits)

lemma withTempDir_scope:
  assumes "realpath p (os_tmpdir p) w = (Inr osTempDir, w1)"
    and "mkdtemp p (path_join p osTempDir ''rust-analyzer'') w1 = (Inr tempDir, w2)"
    and "scope tempDir w2 = (r, w3)"
  shows "withTempDir p scope w =
           (r, case rmdir_recursive p tempDir w3 of
                 (Inl e, w4) \<Rightarrow> log_error [LErr e] w4
               | (Inr u, w4) \<Rightarrow> w4)"
  using assms by (simp add: withTempDir_def)

text \<open>
  When the temporary root cannot be resolved or the directory cannot be created, the call
  fails with that error; the scope is not run and no removal is issued.
\<close>

lemma withTempDir_setup_fails:
  "(\<forall>e w1. realpath p (os_tmpdir p) w = (Inl e, w1) \<longrightarrow> withTempDir p scope w = (Inl e, w1))
 \<and> (\<forall>osTempDir w1 e w2. realpath p (os_tmpdir p) w = (Inr osTempDir, w1)
      \<and> mkdtemp p (path_join p osTempDir ''rust-analyzer'') w1 = (Inl e, w2) \<longrightarrow>
        withTempDir p scope w = (Inl e, w2))"
  by (simp add: withTempDir_def)

text \<open>
  Claim C6. For every call of \<^verbatim>\<open>withTempDir\<close> that gets to run its scope (the temporary
  root resolved and the directory created), whatever the scope returns or fails with is
  the outcome of the call; after the scope exactly one more system call is issued, the
  recursive removal of the directory created; when that removal fails, its error is
  written to the error log and is not the outcome; when it succeeds, nothing is logged
  and neither the directory nor anything in it is left.
\<close>

theorem withTempDir_cleanup:
  assumes "realpath p (os_tmpdir p) w = (Inr osTempDir, w1)"
    and "mkdtemp p (path_join p osTempDir ''rust-analyzer'') w1 = (Inr tempDir, w2)"
    and "scope tempDir w2 = (r, w3)"
  shows "fst (withTempDir p scope w) = r
       \<and> trace (snd (withTempDir p scope w)) = trace w3 @ [SysRmdir tempDir True]
       \<and> (case fault p (SysRmdir tempDir True) of
            Some e \<Rightarrow> logged (snd (withTempDir p scope w)) = logged w3 @ [ErrorLog [LErr e]]
          | None \<Rightarrow> logged (snd (withTempDir p scope w)) = logged w3
                   \<and> (\<forall>q. lies_in p tempDir q \<longrightarrow>
                          files (snd (withTempDir p scope w)) q = None
                        \<and> q \<notin> dirs (snd (withTempDir p scope w))))"
proof -
  obtain rr w4 where rm: "rmdir_recursive p tempDir w3 = (rr, w4)"
    by (cases "rmdir_recursive p tempDir w3")
  note c = rmdir_recursive_cases[OF rm]
  have eq: "withTempDir p scope w =
           (r, case rr of Inl e \<Rightarrow> log_error [LErr e] w4 | Inr u \<Rightarrow> w4)"
    using withTempDir_scope[where scope=scope, OF assms] rm by (simp split: sum.splits)
  show ?thesis
    using c by (cases rr) (auto simp: eq log_error_def)
qed

theorem withTempDir_cleanup_witness:
  "fst (withTempDir
          (demo_platform (always not_found)
             (fault_at (SysRmdir ''/tmp/rust-analyzerAb12Cd'' True) (SystemError ''EBUSY'' ''rmdir''))
             (\<lambda>q. 0))
          (\<lambda>d w. (Inl (Error ''scope failed'') :: error + unit, w)) empty_world) =
     Inl (Error ''scope failed'')
   \<and> trace (snd (withTempDir
          (demo_platform (always not_found)
             (fault_at (SysRmdir ''/tmp/rust-analyzerAb12Cd'' True) (SystemError ''EBUSY'' ''rmdir''))
             (\<lambda>q. 0))
          (\<lambda>d w. (Inl (Error ''scope failed'') :: error + unit, w)) empty_world)) =
       [SysRealpath ''/tmp'', SysMkdtemp ''/tmp/rust-analyzer'',
        SysRmdir ''/tmp/rust-analyzerAb12Cd'' True]
   \<and> logged (snd (withTempDir
          (demo_platform (always not_found)
             (fault_at (SysRmdir ''/tmp/rust-analyzerAb12Cd'' True) (SystemError ''EBUSY'' ''rmdir''))
             (\<lambda>q. 0))
          (\<lambda>d w. (Inl (Error ''scope failed'') :: error + unit, w)) empty_world)) =
       [ErrorLog [LErr (SystemError ''EBUSY'' ''rmdir'')]]
   \<and> fst (withTempDir (demo_platform (always not_found) no_faults (\<lambda>q. 0))
          (\<lambda>d w. (Inr d :: error + path, w)) empty_world) = Inr ''/tmp/rust-analyzerAb12Cd''
   \<and> logged (snd (withTempDir (demo_platform (always not_found) no_faults (\<lambda>q. 0))
          (\<lambda>d w. (Inr d :: error + path, w)) empty_world)) = []
   \<and> ''/tmp/rust-analyzerAb12Cd'' \<notin>
       dirs (snd (withTempDir (demo_platform (always not_found) no_faults (\<lambda>q. 0))
          (\<lambda>d w. (Inr d :: error + path, w)) empty_world))"
proof -
  let ?b = "demo_platform (always not_found)
             (fault_at (SysRmdir ''/tmp/rust-analyzerAb12Cd'' True) (SystemError ''EBUSY'' ''rmdir''))
             (\<lambda>q. 0)"
  let ?n = "demo_platform (always not_found) no_faults (\<lambda>q. 0)"
  let ?w1 = "issue (SysRealpath ''/tmp'') empty_world"
  let ?w2 = "(issue (SysMkdtemp ''/tmp/rust-analyzer'') ?w1)\<lparr>dirs := {''/tmp/rust-analyzerAb12Cd''}\<rparr>"
  have rb: "realpath ?b (os_tmpdir ?b) empty_world = (Inr ''/tmp'', ?w1)"
    and rn: "realpath ?n (os_tmpdir ?n) empty_world = (Inr ''/tmp'', ?w1)"
    by (simp_all add: realpath_def demo_platform_def fault_at_def no_faults_def)
  have mb: "mkdtemp ?b (path_join ?b ''/tmp'' ''rust-analyzer'') ?w1 = (Inr ''/tmp/rust-analyzerAb12Cd'', ?w2)"
    and mn: "mkdtemp ?n (path_join ?n ''/tmp'' ''rust-analyzer'') ?w1 = (Inr ''/tmp/rust-analyzerAb12Cd'', ?w2)"
    by (simp_all add: mkdtemp_def demo_platform_def fault_at_def no_faults_def issue_def
        empty_world_def Let_def)
  have fb: "fault ?b (SysRmdir ''/tmp/rust-analyzerAb12Cd'' True) = Some (SystemError ''EBUSY'' ''rmdir'')"
    and fn: "fault ?n (SysRmdir ''/tmp/rust-analyzerAb12Cd'' True) = None"
    and li: "lies_in ?n ''/tmp/rust-analyzerAb12Cd'' ''/tmp/rust-analyzerAb12Cd''"
    by (simp_all add: demo_platform_def fault_at_def no_faults_def)
  show ?thesis
    using withTempDir_cleanup[where scope="\<lambda>d w. (Inl (Error ''scope failed'') :: error + unit, w)",
            OF rb mb refl]
          withTempDir_cleanup[where scope="\<lambda>d w. (Inr d :: error + path, w)", OF rn mn refl]
          li
    unfolding fb fn by (simp add: issue_def empty_world_def)
qed

section \<open>The download\<close>








section \<open>Progress increments\<close>











end
